theory Spec2Isabelle
  imports Complex_Main
begin

section \<open>JavaScript values\<close>

text \<open>
  The values the modules pass around. A number is an IEEE double: a finite value (the two
  zeros are not told apart, both are falsy), \<open>NaN\<close> or an infinity. An object is the map
  of its own enumerable properties; a property that holds \<open>undefined\<close> is
  \<open>Some JUndefined\<close>, an absent one is \<open>None\<close>. Functions, symbols and BigInts are not
  values of this model. A \<open>char\<close> stands for one code unit below 256.
\<close>

datatype number = Finite real | NaN | Infinity | NegInfinity

datatype jsval =
    JUndefined
  | JNull
  | JBool bool
  | JNum number
  | JStr string
  | JArr "jsval list"
  | JObj "string \<Rightarrow> jsval option"

text \<open>What a \<open>throw\<close> carries. \<open>MessageQueueError\<close> is the class of \<open>utils/errors.js\<close>
  (message, wrapped original error); the others are the platform's and amqplib's.\<close>

datatype exn =
    Error string
  | TypeError string
  | SyntaxError string
  | IllegalOperationError string
  | MessageQueueError string "exn option"

definition new_MessageQueueError :: "string \<Rightarrow> exn option \<Rightarrow> exn" where
  "new_MessageQueueError message originalError =
     MessageQueueError (''Message queue operation failed: '' @ message) originalError"

fun is_MessageQueueError :: "exn \<Rightarrow> bool" where
  "is_MessageQueueError (MessageQueueError m orig) = True"
| "is_MessageQueueError e = False"

text \<open>ToBoolean: \<open>undefined\<close>, \<open>null\<close>, \<open>false\<close>, \<open>0\<close>, \<open>NaN\<close> and \<open>""\<close> are falsy.\<close>

fun truthy :: "jsval \<Rightarrow> bool" where
  "truthy JUndefined = False"
| "truthy JNull = False"
| "truthy (JBool b) = b"
| "truthy (JNum (Finite r)) = (r \<noteq> 0)"
| "truthy (JNum NaN) = False"
| "truthy (JNum Infinity) = True"
| "truthy (JNum NegInfinity) = True"
| "truthy (JStr s) = (s \<noteq> [])"
| "truthy (JArr xs) = True"
| "truthy (JObj m) = True"

text \<open>\<open>a || b\<close>.\<close>

definition js_or :: "jsval \<Rightarrow> jsval \<Rightarrow> jsval" where
  "js_or a b = (if truthy a then a else b)"

fun typeof :: "jsval \<Rightarrow> string" where
  "typeof JUndefined = ''undefined''"
| "typeof JNull = ''object''"
| "typeof (JBool b) = ''boolean''"
| "typeof (JNum n) = ''number''"
| "typeof (JStr s) = ''string''"
| "typeof (JArr xs) = ''object''"
| "typeof (JObj m) = ''object''"

text \<open>The decimal name of an array index, as a property key.\<close>

fun show_nat :: "nat \<Rightarrow> string" where
  "show_nat n =
     (if n < 10 then [''0123456789'' ! n]
      else show_nat (n div 10) @ [''0123456789'' ! (n mod 10)])"

text \<open>
  The own enumerable properties that an object spread \<open>{...v}\<close> copies: those of an
  object, the indexed elements of an array, the indexed characters of a string, and
  nothing for \<open>undefined\<close>, \<open>null\<close>, booleans and numbers.
\<close>

fun own_props :: "jsval \<Rightarrow> (string \<Rightarrow> jsval option)" where
  "own_props (JObj m) = m"
| "own_props (JArr xs) = map_of (zip (map show_nat [0..<length xs]) xs)"
| "own_props (JStr s) = map_of (zip (map show_nat [0..<length s]) (map (\<lambda>c. JStr [c]) s))"
| "own_props v = Map.empty"

text \<open>Reading \<open>o.k\<close> from a property map: \<open>undefined\<close> when the key is absent.\<close>

definition lookup :: "(string \<Rightarrow> jsval option) \<Rightarrow> string \<Rightarrow> jsval" where
  "lookup m k = (case m k of None \<Rightarrow> JUndefined | Some v \<Rightarrow> v)"

text \<open>
  Reading \<open>v.k\<close> from a value that is neither \<open>undefined\<close> nor \<open>null\<close> (on those the read
  throws, which the callers below check first). Only own properties are looked up; the
  keys that the modules read (\<open>data\<close>, \<open>type\<close>, \<open>metadata\<close>, \<open>id\<close>, \<open>timestamp\<close>) are on no
  built-in prototype.
\<close>

definition get_prop :: "jsval \<Rightarrow> string \<Rightarrow> jsval" where
  "get_prop v k = lookup (own_props v) k"

text \<open>\<open>String.prototype.trim\<close>: white space and line terminators, below code unit 256.\<close>

definition is_space :: "char \<Rightarrow> bool" where
  "is_space c = ((of_char c :: nat) \<in> {9, 10, 11, 12, 13, 32, 160})"

definition trim :: "string \<Rightarrow> string" where
  "trim s = rev (dropWhile is_space (rev (dropWhile is_space s)))"

text \<open>
  The built-ins that are taken as given: \<open>JSON.parse\<close> (\<open>Inl\<close> is its SyntaxError),
  \<open>JSON.stringify\<close> on a value of this model whose \<open>typeof\<close> is \<open>object\<close> (always a string
  there) and \<open>Date.prototype.toISOString\<close> on an instant in milliseconds since the epoch.
\<close>

record platform =
  JSON_parse :: "string \<Rightarrow> exn + jsval"
  JSON_stringify :: "jsval \<Rightarrow> string"
  toISOString :: "int \<Rightarrow> string"

section \<open>models/message.js\<close>

record message =
  msg_id :: jsval
  msg_timestamp :: jsval
  msg_type :: jsval
  msg_data :: jsval
  msg_metadata :: "string \<Rightarrow> jsval option"

text \<open>What one constructor call reads from outside: the result of \<open>uuidv4()\<close>, the result
  of \<open>Date.now()\<close> and the instant of \<open>new Date()\<close>.\<close>

record ctor_env =
  uuidv4 :: string
  Date_now :: int
  new_Date :: int

text \<open>\<open>constructor(data, type = "default", metadata = {})\<close>: a default applies when the
  argument is \<open>undefined\<close>.\<close>

definition new_Message :: "platform \<Rightarrow> ctor_env \<Rightarrow> jsval \<Rightarrow> jsval \<Rightarrow> jsval \<Rightarrow> message" where
  "new_Message P E data type metadata =
     \<lparr> msg_id = JStr (uuidv4 E),
       msg_timestamp = JNum (Finite (of_int (Date_now E))),
       msg_type = (if type = JUndefined then JStr ''default'' else type),
       msg_data = data,
       msg_metadata =
         (own_props (if metadata = JUndefined then JObj Map.empty else metadata))
           (''createdAt'' \<mapsto> JStr (toISOString P (new_Date E))) \<rparr>"

definition validate :: "message \<Rightarrow> exn + bool" where
  "validate m =
     (if msg_data m = JUndefined \<or> msg_data m = JNull
      then Inl (Error ''Message data is required'')
      else (case msg_type m of
              JStr s \<Rightarrow>
                if trim s = [] then Inl (Error ''Message type must be a non-empty string'')
                else Inr True
            | _ \<Rightarrow> Inl (Error ''Message type must be a non-empty string'')))"

definition toJSON :: "message \<Rightarrow> jsval" where
  "toJSON m =
     JObj [''id'' \<mapsto> msg_id m,
           ''timestamp'' \<mapsto> msg_timestamp m,
           ''type'' \<mapsto> msg_type m,
           ''data'' \<mapsto> msg_data m,
           ''metadata'' \<mapsto> JObj (msg_metadata m)]"

text \<open>The first half of \<open>fromJSON\<close>: a string is parsed, anything else is taken as it is.\<close>

definition parse_raw :: "platform \<Rightarrow> jsval \<Rightarrow> exn + jsval" where
  "parse_raw P rawMessage =
     (case rawMessage of JStr s \<Rightarrow> JSON_parse P s | _ \<Rightarrow> Inr rawMessage)"

text \<open>
  \<open>fromJSON\<close> calls the constructor (environment \<open>E\<close>) and then, only where \<open>parsed.id\<close>
  or \<open>parsed.timestamp\<close> is falsy, \<open>uuidv4()\<close> and \<open>Date.now()\<close> once more: those second
  results are \<open>fresh_uuid\<close> and \<open>fresh_now\<close>. Reading \<open>parsed.data\<close> throws a TypeError when
  \<open>parsed\<close> is \<open>undefined\<close> or \<open>null\<close>.
\<close>

definition fromJSON ::
  "platform \<Rightarrow> ctor_env \<Rightarrow> string \<Rightarrow> int \<Rightarrow> jsval \<Rightarrow> exn + message" where
  "fromJSON P E fresh_uuid fresh_now rawMessage =
     (case parse_raw P rawMessage of
        Inl e \<Rightarrow> Inl e
      | Inr parsed \<Rightarrow>
          if parsed = JUndefined \<or> parsed = JNull
          then Inl (TypeError ''Cannot read properties of undefined or null'')
          else
            (let message =
               new_Message P E (get_prop parsed ''data'') (get_prop parsed ''type'')
                 (get_prop parsed ''metadata'')
             in Inr (message
                  \<lparr> msg_id := js_or (get_prop parsed ''id'') (JStr fresh_uuid),
                    msg_timestamp :=
                      js_or (get_prop parsed ''timestamp'')
                        (JNum (Finite (of_int fresh_now))) \<rparr>)))"

section \<open>config/rabbitmq.js\<close>

text \<open>
  \<open>parseInt(str, 10)\<close>: leading white space is skipped, a sign is read, then the longest
  run of decimal digits; \<open>None\<close> is \<open>NaN\<close> (no digit there).
\<close>

definition is_digit :: "char \<Rightarrow> bool" where
  "is_digit c = (48 \<le> (of_char c :: nat) \<and> (of_char c :: nat) \<le> 57)"

definition digits_value :: "string \<Rightarrow> int" where
  "digits_value ds = foldl (\<lambda>acc c. 10 * acc + (int (of_char c) - 48)) 0 ds"

definition parseInt :: "string \<Rightarrow> int option" where
  "parseInt str =
     (let s = dropWhile is_space str;
          sign = (case s of c # cs \<Rightarrow> if c = CHR ''-'' then - 1 else 1 | [] \<Rightarrow> (1::int));
          rest = (case s of c # cs \<Rightarrow> if c = CHR ''-'' \<or> c = CHR ''+'' then cs else s
                  | [] \<Rightarrow> s);
          ds = takeWhile is_digit rest
      in if ds = [] then None else Some (sign * digits_value ds))"

text \<open>\<open>process.env.K || d\<close>: an unset or empty variable gives the default.\<close>

definition env_or :: "(string \<Rightarrow> string option) \<Rightarrow> string \<Rightarrow> string \<Rightarrow> string" where
  "env_or env k d = (case env k of None \<Rightarrow> d | Some v \<Rightarrow> if v = [] then d else v)"

record connection_config =
  protocol :: string
  hostname :: string
  port :: "int option"
  username :: string
  password :: string
  vhost :: string
  reconnectInterval :: "int option"
  reconnectAttempts :: "int option"

record config =
  connection_cfg :: connection_config
  exchange_name :: string
  exchange_type :: string
  exchange_options :: "string \<Rightarrow> jsval option"
  queue_name :: string
  queue_options :: "string \<Rightarrow> jsval option"
  routingKey :: string
  messageOptions :: "string \<Rightarrow> jsval option"

definition rabbitmqConfig :: "(string \<Rightarrow> string option) \<Rightarrow> config" where
  "rabbitmqConfig env =
     \<lparr> connection_cfg =
         \<lparr> protocol = ''amqp'',
           hostname = env_or env ''RABBITMQ_HOST'' ''localhost'',
           port = parseInt (env_or env ''RABBITMQ_PORT'' ''5672''),
           username = env_or env ''RABBITMQ_USER'' ''guest'',
           password = env_or env ''RABBITMQ_PASSWORD'' ''guest'',
           vhost = env_or env ''RABBITMQ_VHOST'' ''/'',
           reconnectInterval = parseInt (env_or env ''RABBITMQ_RECONNECT_INTERVAL'' ''5000''),
           reconnectAttempts = parseInt (env_or env ''RABBITMQ_RECONNECT_ATTEMPTS'' ''10'') \<rparr>,
       exchange_name = env_or env ''RABBITMQ_EXCHANGE'' ''message_exchange'',
       exchange_type = ''topic'',
       exchange_options = [''durable'' \<mapsto> JBool True, ''autoDelete'' \<mapsto> JBool False],
       queue_name = env_or env ''RABBITMQ_QUEUE'' ''message_queue'',
       queue_options = [''durable'' \<mapsto> JBool True, ''autoDelete'' \<mapsto> JBool False],
       routingKey = env_or env ''RABBITMQ_ROUTING_KEY'' ''message.new'',
       messageOptions = [''persistent'' \<mapsto> JBool True] \<rparr>"

section \<open>rabbitmq/connection.js\<close>













section \<open>The channel\<close>

text \<open>
  A delivery, the channel operations the modules call (an operation either returns or
  throws; \<open>publish\<close> returns the boolean of the write buffer) and the calls made on a
  channel, in order.
\<close>

record delivery =
  content :: string
  deliveryTag :: nat

record channel_ops =
  ch_ack :: "delivery \<Rightarrow> exn option"
  ch_reject :: "delivery \<Rightarrow> bool \<Rightarrow> exn option"
  ch_assertExchange :: "string \<Rightarrow> string \<Rightarrow> (string \<Rightarrow> jsval option) \<Rightarrow> exn option"
  ch_publish :: "string \<Rightarrow> jsval \<Rightarrow> string \<Rightarrow> (string \<Rightarrow> jsval option) \<Rightarrow> exn + bool"

datatype call =
    Ack delivery
  | Reject delivery bool
  | AssertExchange string string "string \<Rightarrow> jsval option"
  | Publish string jsval string "string \<Rightarrow> jsval option"

section \<open>rabbitmq/consumer.js\<close>

text \<open>\<open>{ noAck: false, ...options }\<close>, with \<open>options = {}\<close> when the argument is
  \<open>undefined\<close>.\<close>

definition consumeOptions :: "jsval \<Rightarrow> (string \<Rightarrow> jsval option)" where
  "consumeOptions options =
     [''noAck'' \<mapsto> JBool False] ++
       own_props (if options = JUndefined then JObj Map.empty else options)"

text \<open>\<open>msg.content.toString()\<close> parsed as JSON, or the text itself when that fails.\<close>

definition parsedContent :: "platform \<Rightarrow> delivery \<Rightarrow> jsval" where
  "parsedContent P msg =
     (case JSON_parse P (content msg) of Inr v \<Rightarrow> v | Inl err \<Rightarrow> JStr (content msg))"

text \<open>
  What a \<open>catch\<close> can receive from a user-supplied handler: JavaScript throws any value, an
  error object or a plain value such as \<open>null\<close> (\<open>throw null\<close>) or \<open>undefined\<close>
  (\<open>Promise.reject()\<close>).
\<close>

datatype thrown = Thrown_error exn | Thrown_value jsval

text \<open>
  The callback that \<open>consume\<close> registers, run on one delivery (\<open>None\<close> is the \<open>null\<close> of a
  cancelled consumer). The handler resolves (\<open>None\<close>) or throws. The result is the calls
  made on the channel and how the callback itself settles. The \<open>try\<close> block is \<open>attempt\<close>:
  whatever throws inside it, the handler or \<open>channel.ack\<close> (amqplib throws error objects),
  is caught by the \<open>catch\<close>. The \<open>catch\<close> first reads \<open>error.message\<close> for its log line: on
  \<open>null\<close> or \<open>undefined\<close> that read throws a TypeError, which leaves the callback before
  \<open>channel.reject\<close> is reached.
\<close>

definition on_message ::
  "platform \<Rightarrow> channel_ops \<Rightarrow> (jsval \<Rightarrow> delivery \<Rightarrow> thrown option) \<Rightarrow>
   (string \<Rightarrow> jsval option) \<Rightarrow> delivery option \<Rightarrow> call list \<times> (exn + unit)" where
  "on_message P ch messageHandler opts msg_opt =
     (case msg_opt of
        None \<Rightarrow> ([], Inr ())
      | Some msg \<Rightarrow>
          (let attempt =
                 (case messageHandler (parsedContent P msg) msg of
                    Some e \<Rightarrow> ([], Some e)
                  | None \<Rightarrow>
                      if \<not> truthy (lookup opts ''noAck'')
                      then ([Ack msg], map_option Thrown_error (ch_ack ch msg))
                      else ([], None))
           in case snd attempt of
                None \<Rightarrow> (fst attempt, Inr ())
              | Some error \<Rightarrow>
                  if error = Thrown_value JNull \<or> error = Thrown_value JUndefined
                  then (fst attempt, Inl (TypeError ''Cannot read properties of undefined or null''))
                  else if \<not> truthy (lookup opts ''noAck'')
                  then (fst attempt @ [Reject msg False],
                        case ch_reject ch msg False of None \<Rightarrow> Inr () | Some e \<Rightarrow> Inl e)
                  else (fst attempt, Inr ())))"

definition consume_callback ::
  "platform \<Rightarrow> channel_ops \<Rightarrow> (jsval \<Rightarrow> delivery \<Rightarrow> thrown option) \<Rightarrow> jsval \<Rightarrow>
   delivery option \<Rightarrow> call list \<times> (exn + unit)" where
  "consume_callback P ch messageHandler options =
     on_message P ch messageHandler (consumeOptions options)"

section \<open>rabbitmq/publisher.js\<close>

record publisher =
  exchange :: string
  exchangeType :: string
  exchangeOptions :: "string \<Rightarrow> jsval option"
  defaultRoutingKey :: string
  defaultMessageOptions :: "string \<Rightarrow> jsval option"

definition new_Publisher :: "config \<Rightarrow> publisher" where
  "new_Publisher cfg =
     \<lparr> exchange = exchange_name cfg,
       exchangeType = exchange_type cfg,
       exchangeOptions = exchange_options cfg,
       defaultRoutingKey = routingKey cfg,
       defaultMessageOptions = messageOptions cfg \<rparr>"

text \<open>\<open>Buffer.from\<close> on what \<open>publish\<close> hands it: the bytes of a string, a TypeError for
  \<open>undefined\<close>, a boolean or a number.\<close>

definition Buffer_from :: "jsval \<Rightarrow> exn + string" where
  "Buffer_from v =
     (case v of JStr s \<Rightarrow> Inr s
      | _ \<Rightarrow> Inl (TypeError ''The first argument must be of type string''))"

text \<open>
  \<open>publish(message, routingKey = this.defaultRoutingKey, options = {})\<close>. The outcome of
  \<open>rabbitMQConnection.createChannel()\<close> is given. A \<open>Message\<close> instance is passed as its
  \<open>toJSON\<close> value, which is what \<open>JSON.stringify\<close> serializes. Every error is logged and
  thrown again by the \<open>catch\<close>, unchanged.
\<close>

definition publish ::
  "platform \<Rightarrow> publisher \<Rightarrow> exn + channel_ops \<Rightarrow> jsval \<Rightarrow> jsval \<Rightarrow> jsval \<Rightarrow>
   call list \<times> (exn + bool)" where
  "publish P pub createChannel message routingKey_arg options_arg =
     (let rkey =
            (if routingKey_arg = JUndefined then JStr (defaultRoutingKey pub) else routingKey_arg);
          options = (if options_arg = JUndefined then JObj Map.empty else options_arg);
          asserted = AssertExchange (exchange pub) (exchangeType pub) (exchangeOptions pub)
      in case createChannel of
           Inl e \<Rightarrow> ([], Inl e)
         | Inr ch \<Rightarrow>
             (case ch_assertExchange ch (exchange pub) (exchangeType pub)
                     (exchangeOptions pub) of
                Some e \<Rightarrow> ([asserted], Inl e)
              | None \<Rightarrow>
                  (case Buffer_from
                          (if typeof message = ''object''
                           then JStr (JSON_stringify P message) else message) of
                     Inl e \<Rightarrow> ([asserted], Inl e)
                   | Inr buf \<Rightarrow>
                       (let merged = defaultMessageOptions pub ++ own_props options
                        in ([asserted, Publish (exchange pub) rkey buf merged],
                            ch_publish ch (exchange pub) rkey buf merged)))))"

section \<open>Concrete values\<close>

text \<open>A platform, environments, channels, handlers and event sequences on which the
  theorems below are instantiated.\<close>

definition example_platform :: platform where
  "example_platform =
     \<lparr> JSON_parse =
         (\<lambda>s. if s = ''null'' then Inr JNull else Inl (SyntaxError ''Unexpected token'')),
       JSON_stringify = (\<lambda>v. ''{}''),
       toISOString = (\<lambda>t. ''2024-01-01T00:00:00.000Z'') \<rparr>"

definition example_env :: ctor_env where
  "example_env =
     \<lparr> uuidv4 = ''9b1deb4d-3b7d-4bad-9bdf-2b0d7b3dcb6d'',
       Date_now = 1704067200000, new_Date = 1704067200000 \<rparr>"

definition later_env :: ctor_env where
  "later_env =
     \<lparr> uuidv4 = ''1c9de0a2-5f0e-4c3b-8d59-0c1f6f2a7e11'',
       Date_now = 1704067200250, new_Date = 1704067200250 \<rparr>"

definition blank_type_message :: message where
  "blank_type_message =
     new_Message example_platform example_env (JNum (Finite 1)) (JStr '' '') JUndefined"


definition example_delivery :: delivery where
  "example_delivery = \<lparr> content = ''plain text message'', deliveryTag = 1 \<rparr>"

definition open_channel :: channel_ops where
  "open_channel =
     \<lparr> ch_ack = (\<lambda>msg. None),
       ch_reject = (\<lambda>msg requeue. None),
       ch_assertExchange = (\<lambda>name type opts. None),
       ch_publish = (\<lambda>name key buf opts. Inr True) \<rparr>"

text \<open>amqplib on a closed channel: \<open>ack\<close>, \<open>reject\<close> and \<open>publish\<close> throw
  IllegalOperationError.\<close>

definition closed_channel :: channel_ops where
  "closed_channel =
     \<lparr> ch_ack = (\<lambda>msg. Some (IllegalOperationError ''Channel closed'')),
       ch_reject = (\<lambda>msg requeue. Some (IllegalOperationError ''Channel closed'')),
       ch_assertExchange = (\<lambda>name type opts. None),
       ch_publish = (\<lambda>name key buf opts. Inl (IllegalOperationError ''Channel closed'')) \<rparr>"

definition resolving_handler :: "jsval \<Rightarrow> delivery \<Rightarrow> thrown option" where
  "resolving_handler parsed msg = None"

definition failing_handler :: "jsval \<Rightarrow> delivery \<Rightarrow> thrown option" where
  "failing_handler parsed msg = Some (Thrown_error (Error ''Handler failed''))"



definition default_publisher :: publisher where
  "default_publisher = new_Publisher (rabbitmqConfig Map.empty)"

section \<open>The message envelope\<close>

subsection \<open>Validation\<close>

lemma all_dropWhile_iff: "(\<forall>c\<in>set (dropWhile P s). P c) \<longleftrightarrow> (\<forall>c\<in>set s. P c)"
proof
  assume all: "\<forall>c\<in>set (dropWhile P s). P c"
  show "\<forall>c\<in>set s. P c"
  proof (rule ccontr)
    assume "\<not> (\<forall>c\<in>set s. P c)"
    then have ne: "dropWhile P s \<noteq> []" by simp
    then have "\<not> P (hd (dropWhile P s))" by (rule hd_dropWhile)
    moreover from ne have "hd (dropWhile P s) \<in> set (dropWhile P s)" by (rule hd_in_set)
    ultimately show False using all by blast
  qed
next
  assume "\<forall>c\<in>set s. P c"
  then show "\<forall>c\<in>set (dropWhile P s). P c" by (blast dest: set_dropWhileD)
qed

lemma trim_Nil_iff: "trim s = [] \<longleftrightarrow> (\<forall>c\<in>set s. is_space c)"
  by (simp add: trim_def all_dropWhile_iff)

text \<open>
  Against claim C6 as stated: a message with data \<open>1\<close> and type \<open>" "\<close> has non-null data
  and a type that is a non-empty string, yet \<open>validate\<close> throws the type error, because
  the check is on \<open>type.trim()\<close>.
\<close>

theorem validate_blank_type_counterexample:
  "msg_data blank_type_message \<noteq> JUndefined \<and> msg_data blank_type_message \<noteq> JNull \<and>
   msg_type blank_type_message = JStr '' '' \<and> '' '' \<noteq> [] \<and>
   validate blank_type_message = Inl (Error ''Message type must be a non-empty string'')"
  by (simp add: blank_type_message_def new_Message_def validate_def trim_def is_space_def)

text \<open>
  Claim C6, amended. \<open>validate\<close> throws the data-required error for every message whose
  data is \<open>undefined\<close> or \<open>null\<close>, whatever its type; for every message with other data it
  throws the type error when the type is not a string or is a string of white space only
  (the empty string included); and it returns \<open>true\<close> for every message with other data
  and a string type that has a character which is not white space.
\<close>

theorem validate_cases:
  "(msg_data m = JUndefined \<or> msg_data m = JNull \<longrightarrow>
      validate m = Inl (Error ''Message data is required'')) \<and>
   (msg_data m \<noteq> JUndefined \<and> msg_data m \<noteq> JNull \<and>
      (typeof (msg_type m) \<noteq> ''string'' \<or>
       (\<exists>s. msg_type m = JStr s \<and> (\<forall>c\<in>set s. is_space c))) \<longrightarrow>
      validate m = Inl (Error ''Message type must be a non-empty string'')) \<and>
   (msg_data m \<noteq> JUndefined \<and> msg_data m \<noteq> JNull \<and>
      (\<exists>s. msg_type m = JStr s \<and> (\<exists>c\<in>set s. \<not> is_space c)) \<longrightarrow>
      validate m = Inr True)"
  by (cases "msg_type m") (auto simp: validate_def trim_Nil_iff)

theorem validate_cases_witness:
  "msg_data (new_Message example_platform example_env JNull (JStr ''test.message'') JUndefined) =
     JNull \<and>
   validate (new_Message example_platform example_env JNull (JStr ''test.message'') JUndefined) =
     Inl (Error ''Message data is required'') \<and>
   typeof (msg_type (new_Message example_platform example_env (JNum (Finite 1))
     (JNum (Finite 12345)) JUndefined)) \<noteq> ''string'' \<and>
   validate (new_Message example_platform example_env (JNum (Finite 1)) (JNum (Finite 12345))
     JUndefined) = Inl (Error ''Message type must be a non-empty string'') \<and>
   validate (new_Message example_platform example_env (JNum (Finite 1)) (JStr []) JUndefined) =
     Inl (Error ''Message type must be a non-empty string'') \<and>
   \<not> is_space CHR ''t'' \<and>
   validate (new_Message example_platform example_env (JNum (Finite 1)) (JStr ''test.message'')
     JUndefined) = Inr True"
  using
    validate_cases [of "new_Message example_platform example_env JNull (JStr ''test.message'')
      JUndefined"]
    validate_cases [of "new_Message example_platform example_env (JNum (Finite 1))
      (JNum (Finite 12345)) JUndefined"]
    validate_cases [of "new_Message example_platform example_env (JNum (Finite 1)) (JStr [])
      JUndefined"]
    validate_cases [of "new_Message example_platform example_env (JNum (Finite 1))
      (JStr ''test.message'') JUndefined"]
  by (simp add: new_Message_def is_space_def)

subsection \<open>The constructor\<close>

text \<open>
  Claim C9. For every data, type and metadata, the metadata of the constructed message
  has the key \<open>createdAt\<close>, holding \<open>new Date().toISOString()\<close> of the construction instant,
  and has every own key of the caller's metadata; each caller's key other than \<open>createdAt\<close>
  keeps the caller's value, and no other key is added.
\<close>

theorem constructor_metadata:
  "msg_metadata (new_Message P E data type metadata) ''createdAt'' =
     Some (JStr (toISOString P (new_Date E))) \<and>
   dom (own_props metadata) \<subseteq> dom (msg_metadata (new_Message P E data type metadata)) \<and>
   (\<forall>k. k \<noteq> ''createdAt'' \<longrightarrow>
      msg_metadata (new_Message P E data type metadata) k = own_props metadata k)"
  by (auto simp: new_Message_def)

theorem constructor_metadata_witness:
  "''source'' \<noteq> ''createdAt'' \<and>
   msg_metadata (new_Message example_platform example_env (JNum (Finite 1))
     (JStr ''user.registered'') (JObj [''source'' \<mapsto> JStr ''user-service''])) ''source'' =
     Some (JStr ''user-service'') \<and>
   msg_metadata (new_Message example_platform example_env (JNum (Finite 1))
     (JStr ''user.registered'') (JObj [''source'' \<mapsto> JStr ''user-service''])) ''createdAt'' =
     Some (JStr ''2024-01-01T00:00:00.000Z'')"
  using constructor_metadata [of example_platform example_env "JNum (Finite 1)"
    "JStr ''user.registered''" "JObj [''source'' \<mapsto> JStr ''user-service'']"]
  by (simp add: example_platform_def)

subsection \<open>\<open>toJSON\<close> and \<open>fromJSON\<close>\<close>

lemma get_prop_toJSON:
  "get_prop (toJSON m) ''id'' = msg_id m"
  "get_prop (toJSON m) ''timestamp'' = msg_timestamp m"
  "get_prop (toJSON m) ''type'' = msg_type m"
  "get_prop (toJSON m) ''data'' = msg_data m"
  "get_prop (toJSON m) ''metadata'' = JObj (msg_metadata m)"
  by (simp_all add: get_prop_def lookup_def toJSON_def)

lemma parse_raw_toJSON: "parse_raw P (toJSON m) = Inr (toJSON m)"
  by (simp add: parse_raw_def toJSON_def)

lemma fromJSON_toJSON:
  "fromJSON P E u n (toJSON m) =
     Inr ((new_Message P E (msg_data m) (msg_type m) (JObj (msg_metadata m)))
            \<lparr> msg_id := js_or (msg_id m) (JStr u),
              msg_timestamp := js_or (msg_timestamp m) (JNum (Finite (of_int n))) \<rparr>)"
  unfolding fromJSON_def parse_raw_toJSON
  by (simp add: get_prop_toJSON) (simp add: toJSON_def)

text \<open>
  Claim C2. Let \<open>m\<close> be the envelope that the constructor builds from data that is neither
  \<open>undefined\<close> nor \<open>null\<close>, a non-empty string type and any metadata, where \<open>uuidv4()\<close>
  gave a non-empty string and \<open>Date.now()\<close> a non-zero number of milliseconds (as they do:
  a UUID has 36 characters, and the clock reads zero only at the epoch itself). Then
  \<open>fromJSON(m.toJSON())\<close> returns a message with the id, timestamp, type and data of \<open>m\<close>,
  whatever \<open>uuidv4()\<close> and the clock give during \<open>fromJSON\<close>.
\<close>

theorem envelope_round_trip:
  assumes "data \<noteq> JUndefined" and "data \<noteq> JNull"
    and "type = JStr t" and "t \<noteq> []"
    and "uuidv4 E \<noteq> []" and "Date_now E \<noteq> 0"
    and "m = new_Message P E data type metadata"
  shows "\<exists>m'. fromJSON P E' fresh_uuid fresh_now (toJSON m) = Inr m' \<and>
           msg_id m' = msg_id m \<and> msg_timestamp m' = msg_timestamp m \<and>
           msg_type m' = msg_type m \<and> msg_data m' = msg_data m"
  using assms by (simp add: fromJSON_toJSON js_or_def new_Message_def)

theorem envelope_round_trip_witness:
  "\<exists>m'. fromJSON example_platform later_env ''fresh'' 1704067200251
          (toJSON (new_Message example_platform example_env (JObj [''email'' \<mapsto> JStr ''a@b.com''])
                     (JStr ''user.registered'') JUndefined)) = Inr m' \<and>
     msg_id m' = JStr ''9b1deb4d-3b7d-4bad-9bdf-2b0d7b3dcb6d'' \<and>
     msg_timestamp m' = JNum (Finite 1704067200000) \<and>
     msg_type m' = JStr ''user.registered'' \<and>
     msg_data m' = JObj [''email'' \<mapsto> JStr ''a@b.com'']"
  using envelope_round_trip [of "JObj [''email'' \<mapsto> JStr ''a@b.com'']" "JStr ''user.registered''"
      "''user.registered''" example_env
      "new_Message example_platform example_env (JObj [''email'' \<mapsto> JStr ''a@b.com''])
         (JStr ''user.registered'') JUndefined"
      example_platform JUndefined later_env "''fresh''" 1704067200251]
  by (simp add: example_env_def new_Message_def)

lemma js_or_not_missing:
  "b \<noteq> JUndefined \<Longrightarrow> b \<noteq> JNull \<Longrightarrow> js_or a b \<noteq> JUndefined \<and> js_or a b \<noteq> JNull"
  by (cases a) (auto simp: js_or_def)

text \<open>
  Claim C10. \<open>fromJSON\<close> accepts an input when it parses to a value other than \<open>undefined\<close>
  and \<open>null\<close>, and then it returns a message: where the parsed \<open>id\<close> is absent or falsy
  the id is the UUID generated during the call, where the parsed \<open>timestamp\<close> is absent
  or falsy (zero included) the timestamp is the clock reading during the call, and in
  every case neither the id nor the timestamp is \<open>undefined\<close> or \<open>null\<close>.
\<close>

theorem fromJSON_fills_id_and_timestamp:
  assumes "parse_raw P rawMessage = Inr parsed"
    and "parsed \<noteq> JUndefined" and "parsed \<noteq> JNull"
  shows "\<exists>m. fromJSON P E fresh_uuid fresh_now rawMessage = Inr m \<and>
           (\<not> truthy (get_prop parsed ''id'') \<longrightarrow> msg_id m = JStr fresh_uuid) \<and>
           (\<not> truthy (get_prop parsed ''timestamp'') \<longrightarrow>
              msg_timestamp m = JNum (Finite (of_int fresh_now))) \<and>
           msg_id m \<noteq> JUndefined \<and> msg_id m \<noteq> JNull \<and>
           msg_timestamp m \<noteq> JUndefined \<and> msg_timestamp m \<noteq> JNull"
  using assms by (simp add: fromJSON_def js_or_not_missing) (simp add: js_or_def)

theorem fromJSON_fills_id_and_timestamp_witness:
  "\<exists>m. fromJSON example_platform example_env ''1c9de0a2-5f0e-4c3b-8d59-0c1f6f2a7e11''
         1704067200250
         (JObj [''type'' \<mapsto> JStr ''test'',
                ''data'' \<mapsto> JObj [''something'' \<mapsto> JStr ''here''],
                ''timestamp'' \<mapsto> JNum (Finite 0)]) = Inr m \<and>
       msg_id m = JStr ''1c9de0a2-5f0e-4c3b-8d59-0c1f6f2a7e11'' \<and>
       msg_timestamp m = JNum (Finite 1704067200250)"
proof -
  let ?raw = "JObj [''type'' \<mapsto> JStr ''test'',
                ''data'' \<mapsto> JObj [''something'' \<mapsto> JStr ''here''],
                ''timestamp'' \<mapsto> JNum (Finite 0)]"
  have h1: "parse_raw example_platform ?raw = Inr ?raw"
    by (simp add: parse_raw_def)
  have h2: "?raw \<noteq> JUndefined" and h3: "?raw \<noteq> JNull"
    by simp_all
  have falsy: "\<not> truthy (get_prop ?raw ''id'')" "\<not> truthy (get_prop ?raw ''timestamp'')"
    by (simp_all add: get_prop_def lookup_def)
  from fromJSON_fills_id_and_timestamp [OF h1 h2 h3, of example_env
      "''1c9de0a2-5f0e-4c3b-8d59-0c1f6f2a7e11''" 1704067200250] falsy
  show ?thesis by auto
qed

section \<open>Reconnection\<close>












section \<open>The consumer callback\<close>

lemma noAck_default: "lookup (consumeOptions JUndefined) ''noAck'' = JBool False"
  by (simp add: consumeOptions_def lookup_def)

text \<open>
  Against claim C3 as stated: the handler resolves and \<open>noAck\<close> is \<open>false\<close>, but the channel
  has closed while the handler ran, so \<open>channel.ack\<close> throws inside the \<open>try\<close> block and the
  \<open>catch\<close> calls \<open>channel.reject\<close> on the same delivery.
\<close>

theorem ack_failure_counterexample:
  "resolving_handler (parsedContent example_platform example_delivery) example_delivery = None \<and>
   lookup (consumeOptions JUndefined) ''noAck'' = JBool False \<and>
   fst (consume_callback example_platform closed_channel resolving_handler JUndefined
          (Some example_delivery)) =
     [Ack example_delivery, Reject example_delivery False]"
  by (simp add: consume_callback_def on_message_def noAck_default resolving_handler_def
      closed_channel_def)

text \<open>
  Claim C3, amended. For every non-null delivery processed with \<open>noAck = false\<close>, if the
  handler resolves and \<open>channel.ack\<close> returns normally, the callback calls \<open>channel.ack\<close> on
  that delivery exactly once, calls \<open>channel.reject\<close> not at all, and resolves.
\<close>

theorem ack_on_success:
  assumes "messageHandler (parsedContent P msg) msg = None"
    and "lookup (consumeOptions options) ''noAck'' = JBool False"
    and "ch_ack ch msg = None"
  shows "consume_callback P ch messageHandler options (Some msg) = ([Ack msg], Inr ())"
  using assms by (simp add: consume_callback_def on_message_def)

theorem ack_on_success_witness:
  "consume_callback example_platform open_channel resolving_handler JUndefined
     (Some example_delivery) = ([Ack example_delivery], Inr ())"
proof -
  have h1: "resolving_handler (parsedContent example_platform example_delivery) example_delivery =
      None"
    by (simp add: resolving_handler_def)
  have h3: "ch_ack open_channel example_delivery = None"
    by (simp add: open_channel_def)
  show ?thesis
    by (rule ack_on_success [where messageHandler = resolving_handler, OF h1 noAck_default h3])
qed




text \<open>
  Claim C5. When \<open>consume\<close> is called with options that contain \<open>noAck: true\<close>, the callback
  makes no call on the channel, neither \<open>ack\<close> nor \<open>reject\<close>, for every delivery, every
  handler (resolving or throwing) and every channel.
\<close>

theorem noAck_suppresses_both:
  assumes "own_props options ''noAck'' = Some (JBool True)"
  shows "fst (consume_callback P ch messageHandler options msg_opt) = []"
proof -
  from assms have "options \<noteq> JUndefined" by auto
  with assms have "lookup (consumeOptions options) ''noAck'' = JBool True"
    by (simp add: consumeOptions_def lookup_def map_add_def)
  then show ?thesis
    by (simp add: consume_callback_def on_message_def Let_def split: option.splits)
qed

theorem noAck_suppresses_both_witness:
  "fst (consume_callback example_platform open_channel resolving_handler
          (JObj [''noAck'' \<mapsto> JBool True]) (Some example_delivery)) = [] \<and>
   fst (consume_callback example_platform closed_channel failing_handler
          (JObj [''noAck'' \<mapsto> JBool True]) (Some example_delivery)) = []"
proof -
  have h: "own_props (JObj [''noAck'' \<mapsto> JBool True]) ''noAck'' = Some (JBool True)"
    by simp
  from noAck_suppresses_both [OF h] show ?thesis by simp
qed

section \<open>Publishing\<close>

lemma own_props_default: "own_props (if v = JUndefined then JObj Map.empty else v) = own_props v"
  by simp

lemma Buffer_from_message:
  assumes "typeof message = ''object'' \<or> typeof message = ''string''"
  shows "Buffer_from
           (if typeof message = ''object'' then JStr (JSON_stringify P message) else message) =
         Inr (case message of JStr s \<Rightarrow> s | _ \<Rightarrow> JSON_stringify P message)"
  using assms by (cases message) (simp_all add: Buffer_from_def)

text \<open>With a channel, an asserted exchange and an object or string message, \<open>publish\<close>
  reaches the channel write, and its outcome is the outcome of that write.\<close>

lemma publish_reaches_write:
  assumes "createChannel = Inr ch"
    and "ch_assertExchange ch (exchange pub) (exchangeType pub) (exchangeOptions pub) = None"
    and "typeof message = ''object'' \<or> typeof message = ''string''"
    and "rkey = (if routingKey_arg = JUndefined then JStr (defaultRoutingKey pub)
                 else routingKey_arg)"
    and "bytes = (case message of JStr s \<Rightarrow> s | _ \<Rightarrow> JSON_stringify P message)"
    and "merged = defaultMessageOptions pub ++ own_props options_arg"
  shows "publish P pub createChannel message routingKey_arg options_arg =
           ([AssertExchange (exchange pub) (exchangeType pub) (exchangeOptions pub),
             Publish (exchange pub) rkey bytes merged],
            ch_publish ch (exchange pub) rkey bytes merged)"
  using assms(1,2,4,5,6) Buffer_from_message [OF assms(3), of P]
  by (simp add: publish_def Let_def own_props_default del: own_props.simps)

lemma persistent_by_default:
  "defaultMessageOptions (new_Publisher (rabbitmqConfig env)) ''persistent'' = Some (JBool True)"
  by (simp add: new_Publisher_def rabbitmqConfig_def)

text \<open>
  Claim C7. For every object or string message and every options argument, once the
  channel is there and the exchange asserted, \<open>publish\<close> writes to the channel the JSON
  text of an object message and the text of a string message themselves, with message
  options that are the caller's options merged over the defaults (a caller's key wins, a
  key the caller does not give keeps its default, so \<open>persistent: true\<close> of the
  configuration holds unless the caller gives \<open>persistent\<close>), and what \<open>publish\<close> returns is
  what the channel write returns.
\<close>

theorem publish_writes_merged:
  assumes "createChannel = Inr ch"
    and "ch_assertExchange ch (exchange pub) (exchangeType pub) (exchangeOptions pub) = None"
    and "typeof message = ''object'' \<or> typeof message = ''string''"
    and "rkey = (if routingKey_arg = JUndefined then JStr (defaultRoutingKey pub)
                 else routingKey_arg)"
    and "bytes = (case message of JStr s \<Rightarrow> s | _ \<Rightarrow> JSON_stringify P message)"
    and "merged = defaultMessageOptions pub ++ own_props options_arg"
  shows "publish P pub createChannel message routingKey_arg options_arg =
           ([AssertExchange (exchange pub) (exchangeType pub) (exchangeOptions pub),
             Publish (exchange pub) rkey bytes merged],
            ch_publish ch (exchange pub) rkey bytes merged) \<and>
         (\<forall>k v. own_props options_arg k = Some v \<longrightarrow> merged k = Some v) \<and>
         (\<forall>k. own_props options_arg k = None \<longrightarrow> merged k = defaultMessageOptions pub k) \<and>
         (pub = new_Publisher (rabbitmqConfig env) \<and>
          own_props options_arg ''persistent'' = None \<longrightarrow>
            merged ''persistent'' = Some (JBool True))"
proof -
  have "\<forall>k v. own_props options_arg k = Some v \<longrightarrow> merged k = Some v"
    using assms(6) by (simp add: map_add_def)
  moreover have "\<forall>k. own_props options_arg k = None \<longrightarrow> merged k = defaultMessageOptions pub k"
    using assms(6) by (simp add: map_add_def)
  moreover have "pub = new_Publisher (rabbitmqConfig env) \<and>
      own_props options_arg ''persistent'' = None \<longrightarrow>
      merged ''persistent'' = Some (JBool True)"
    using assms(6) persistent_by_default [of env] by (simp add: map_add_def)
  ultimately show ?thesis
    using publish_reaches_write [OF assms] by blast
qed

theorem publish_writes_merged_witness:
  "publish example_platform default_publisher (Inr open_channel)
     (JObj [''hello'' \<mapsto> JStr ''world'']) (JStr ''test.key'')
     (JObj [''priority'' \<mapsto> JNum (Finite 5)]) =
     ([AssertExchange ''message_exchange'' ''topic''
         [''durable'' \<mapsto> JBool True, ''autoDelete'' \<mapsto> JBool False],
       Publish ''message_exchange'' (JStr ''test.key'') ''{}''
         ([''persistent'' \<mapsto> JBool True] ++ [''priority'' \<mapsto> JNum (Finite 5)])],
      Inr True) \<and>
   ([''persistent'' \<mapsto> JBool True] ++ [''priority'' \<mapsto> JNum (Finite 5)]) ''persistent'' =
     Some (JBool True) \<and>
   publish example_platform default_publisher (Inr open_channel)
     (JStr ''test message'') JUndefined JUndefined =
     ([AssertExchange ''message_exchange'' ''topic''
         [''durable'' \<mapsto> JBool True, ''autoDelete'' \<mapsto> JBool False],
       Publish ''message_exchange'' (JStr ''message.new'') ''test message''
         ([''persistent'' \<mapsto> JBool True] ++ Map.empty)],
      Inr True)"
proof -
  have pub: "exchange default_publisher = ''message_exchange''"
    "exchangeType default_publisher = ''topic''"
    "exchangeOptions default_publisher =
       [''durable'' \<mapsto> JBool True, ''autoDelete'' \<mapsto> JBool False]"
    "defaultRoutingKey default_publisher = ''message.new''"
    "defaultMessageOptions default_publisher = [''persistent'' \<mapsto> JBool True]"
    by (simp_all add: default_publisher_def new_Publisher_def rabbitmqConfig_def env_or_def)
  have asserted: "ch_assertExchange open_channel (exchange default_publisher)
      (exchangeType default_publisher) (exchangeOptions default_publisher) = None"
    by (simp add: open_channel_def)
  have w: "ch_publish open_channel n k b opts = Inr True" for n k b opts
    by (simp add: open_channel_def)
  have a: "publish example_platform default_publisher (Inr open_channel)
     (JObj [''hello'' \<mapsto> JStr ''world'']) (JStr ''test.key'')
     (JObj [''priority'' \<mapsto> JNum (Finite 5)]) =
     ([AssertExchange ''message_exchange'' ''topic''
         [''durable'' \<mapsto> JBool True, ''autoDelete'' \<mapsto> JBool False],
       Publish ''message_exchange'' (JStr ''test.key'') ''{}''
         ([''persistent'' \<mapsto> JBool True] ++ [''priority'' \<mapsto> JNum (Finite 5)])],
      Inr True)"
    using publish_writes_merged [where P = example_platform and pub = default_publisher
        and createChannel = "Inr open_channel" and ch = open_channel
        and message = "JObj [''hello'' \<mapsto> JStr ''world'']" and routingKey_arg = "JStr ''test.key''"
        and options_arg = "JObj [''priority'' \<mapsto> JNum (Finite 5)]",
        OF refl asserted _ refl refl refl]
    by (simp add: pub w example_platform_def)
  have b: "publish example_platform default_publisher (Inr open_channel)
     (JStr ''test message'') JUndefined JUndefined =
     ([AssertExchange ''message_exchange'' ''topic''
         [''durable'' \<mapsto> JBool True, ''autoDelete'' \<mapsto> JBool False],
       Publish ''message_exchange'' (JStr ''message.new'') ''test message''
         ([''persistent'' \<mapsto> JBool True] ++ Map.empty)],
      Inr True)"
    using publish_writes_merged [where P = example_platform and pub = default_publisher
        and createChannel = "Inr open_channel" and ch = open_channel
        and message = "JStr ''test message''" and routingKey_arg = JUndefined
        and options_arg = JUndefined, OF refl asserted _ refl refl refl]
    by (simp add: pub w del: map_add_empty)
  from a b show ?thesis by simp
qed

text \<open>
  Against claim C8 as stated: on a closed channel the write throws amqplib's
  IllegalOperationError, and \<open>publish\<close> fails with that very error, which is not a
  \<open>MessageQueueError\<close>: the \<open>catch\<close> logs and throws the caught error again.
\<close>

theorem publish_error_kind_counterexample:
  "ch_publish closed_channel (exchange default_publisher)
     (JStr (defaultRoutingKey default_publisher)) ''test message''
     (defaultMessageOptions default_publisher ++ Map.empty) =
     Inl (IllegalOperationError ''Channel closed'') \<and>
   snd (publish example_platform default_publisher (Inr closed_channel)
          (JStr ''test message'') JUndefined JUndefined) =
     Inl (IllegalOperationError ''Channel closed'') \<and>
   \<not> is_MessageQueueError (IllegalOperationError ''Channel closed'')"
  by (simp add: publish_def Buffer_from_def closed_channel_def)

text \<open>
  Claim C8, amended. Whenever the channel write inside \<open>publish\<close> throws, \<open>publish\<close> fails
  with exactly the error that the write threw, of whatever kind, not wrapped in any other
  error.
\<close>

theorem publish_rethrows:
  assumes "createChannel = Inr ch"
    and "ch_assertExchange ch (exchange pub) (exchangeType pub) (exchangeOptions pub) = None"
    and "typeof message = ''object'' \<or> typeof message = ''string''"
    and "rkey = (if routingKey_arg = JUndefined then JStr (defaultRoutingKey pub)
                 else routingKey_arg)"
    and "bytes = (case message of JStr s \<Rightarrow> s | _ \<Rightarrow> JSON_stringify P message)"
    and "merged = defaultMessageOptions pub ++ own_props options_arg"
    and "ch_publish ch (exchange pub) rkey bytes merged = Inl e"
  shows "snd (publish P pub createChannel message routingKey_arg options_arg) = Inl e"
  using publish_reaches_write [OF assms(1-6)] assms(7) by simp

theorem publish_rethrows_witness:
  "snd (publish example_platform default_publisher (Inr closed_channel)
          (JObj [''hello'' \<mapsto> JStr ''world'']) JUndefined JUndefined) =
     Inl (IllegalOperationError ''Channel closed'')"
proof -
  have asserted: "ch_assertExchange closed_channel (exchange default_publisher)
      (exchangeType default_publisher) (exchangeOptions default_publisher) = None"
    by (simp add: closed_channel_def)
  have w: "ch_publish closed_channel n k b opts = Inl (IllegalOperationError ''Channel closed'')"
    for n k b opts
    by (simp add: closed_channel_def)
  show ?thesis
    by (rule publish_rethrows [where ch = closed_channel, OF refl asserted _ refl refl refl w])
      simp
qed

end
